theory Spec2Isabelle
  imports Complex_Main
begin

section \<open>ViewNudger: screen-space nudging of an object or a camera\<close>

text \<open>
  The module \<^verbatim>\<open>ViewNudger/api.py\<close> has five functions: \<^verbatim>\<open>parseArgs\<close>,
  \<^verbatim>\<open>nudge\<close>, \<^verbatim>\<open>getCamera\<close>, \<^verbatim>\<open>worldToScreen\<close> and \<^verbatim>\<open>screenToWorld\<close>.
  They are embedded below in the order leaves first.

  Numbers. Python floats and the doubles of the host's vector classes are idealised as
  \<^typ>\<open>real\<close>: rounding, overflow and NaN are outside the model, so the equations
  below are equations of exact arithmetic. The one exception is \<open>double_offset\<close>,
  which rounds as the doubles do, for the claim that turns on it. Python's \<^verbatim>\<open>/\<close>
  raises on a zero divisor; that is a branch of the model. The viewport sizes are
  Python ints.
\<close>

subsection \<open>Errors\<close>

text \<open>
  The four \<^verbatim>\<open>RuntimeError\<close>s that \<^verbatim>\<open>parseArgs\<close> raises are told apart by
  their message. \<^verbatim>\<open>TypeError\<close> is what Python raises for \<^verbatim>\<open>None + float\<close>,
  \<^verbatim>\<open>ZeroDivisionError\<close> for a zero divisor, and \<^verbatim>\<open>ValueError\<close> is what the host's
  command layer raises when no object matches a name.
\<close>

datatype runtime_message =
    NoTransformNameSupplied
  | NotATransform
  | NotAModelPanelOrView
  | NotAView

datatype error =
    RuntimeError runtime_message
  | TypeError
  | ZeroDivisionError
  | ValueError

subsection \<open>The host's vector classes\<close>

text \<open>
  \<^verbatim>\<open>OpenMaya.MVector\<close> is a triple of doubles, \<^verbatim>\<open>OpenMaya.MPoint\<close> a
  homogeneous quadruple whose \<^verbatim>\<open>w\<close> defaults to 1, and \<^verbatim>\<open>OpenMaya.MMatrix\<close> a
  4 by 4 matrix, written here row by row. Points are row vectors: a point is
  transformed by multiplying it with the matrix on its right.
\<close>

datatype MVector = MVector (vx: real) (vy: real) (vz: real)

datatype MPoint = MPoint (px: real) (py: real) (pz: real) (pw: real)

datatype MMatrix = MMatrix
  (m00: real) (m01: real) (m02: real) (m03: real)
  (m10: real) (m11: real) (m12: real) (m13: real)
  (m20: real) (m21: real) (m22: real) (m23: real)
  (m30: real) (m31: real) (m32: real) (m33: real)

text \<open>\<^verbatim>\<open>MPoint(x, y, z)\<close> and \<^verbatim>\<open>MPoint(v)\<close> for a vector \<^verbatim>\<open>v\<close>: \<^verbatim>\<open>w\<close> is 1.\<close>

definition MPoint3 :: "real \<Rightarrow> real \<Rightarrow> real \<Rightarrow> MPoint" where
  "MPoint3 a b c = MPoint a b c 1"

definition MPoint_of_MVector :: "MVector \<Rightarrow> MPoint" where
  "MPoint_of_MVector v = MPoint (vx v) (vy v) (vz v) 1"

text \<open>\<^verbatim>\<open>MVector(p)\<close> for a point \<^verbatim>\<open>p\<close> copies its first three coordinates.\<close>

definition MVector_of_MPoint :: "MPoint \<Rightarrow> MVector" where
  "MVector_of_MPoint p = MVector (px p) (py p) (pz p)"

text \<open>
  \<^verbatim>\<open>MPoint.cartesianize\<close>: a point \<^verbatim>\<open>(W*x, W*y, W*z, W)\<close> with \<^verbatim>\<open>W\<close> not zero
  becomes \<^verbatim>\<open>(x, y, z, 1)\<close>; a point with \<^verbatim>\<open>w = 0\<close> is left as it is.
\<close>

definition cartesianize :: "MPoint \<Rightarrow> MPoint" where
  "cartesianize p =
     (if pw p = 0 then p else MPoint (px p / pw p) (py p / pw p) (pz p / pw p) 1)"

text \<open>
  \<^verbatim>\<open>p - q\<close> for two points is the vector between them. When both have \<^verbatim>\<open>w = 1\<close> it
  is the coordinate-wise difference; otherwise both are cartesianized first.
\<close>

definition point_minus :: "MPoint \<Rightarrow> MPoint \<Rightarrow> MVector" where
  "point_minus p q =
     (if pw p = 1 \<and> pw q = 1 then MVector (px p - px q) (py p - py q) (pz p - pz q)
      else (let p1 = cartesianize p; q1 = cartesianize q
            in MVector (px p1 - px q1) (py p1 - py q1) (pz p1 - pz q1)))"

text \<open>\<^verbatim>\<open>u + v\<close>, \<^verbatim>\<open>v * s\<close> for a scalar \<^verbatim>\<open>s\<close>, and \<^verbatim>\<open>u * v\<close>, the dot product.\<close>

definition vector_plus :: "MVector \<Rightarrow> MVector \<Rightarrow> MVector" where
  "vector_plus u v = MVector (vx u + vx v) (vy u + vy v) (vz u + vz v)"

definition vector_scale :: "MVector \<Rightarrow> real \<Rightarrow> MVector" where
  "vector_scale v s = MVector (vx v * s) (vy v * s) (vz v * s)"

definition dot :: "MVector \<Rightarrow> MVector \<Rightarrow> real" where
  "dot u v = vx u * vx v + vy u * vy v + vz u * vz v"

text \<open>\<^verbatim>\<open>v.length()\<close>.\<close>

definition vector_length :: "MVector \<Rightarrow> real" where
  "vector_length v = sqrt (vx v * vx v + vy v * vy v + vz v * vz v)"

text \<open>
  \<^verbatim>\<open>v.normalize()\<close> scales \<^verbatim>\<open>v\<close> in place to length 1; a vector of length zero
  is left as it is.
\<close>

definition normalize :: "MVector \<Rightarrow> MVector" where
  "normalize v =
     (if vector_length v = 0 then v
      else MVector (vx v / vector_length v) (vy v / vector_length v) (vz v / vector_length v))"

text \<open>
  \<^verbatim>\<open>u.angle(v)\<close>: the angle between the two vectors, in radians, between 0 and
  \<open>pi\<close>. \<^verbatim>\<open>math.degrees\<close> converts radians to degrees.
\<close>

definition angle :: "MVector \<Rightarrow> MVector \<Rightarrow> real" where
  "angle u v = arccos (dot u v / (vector_length u * vector_length v))"

definition degrees :: "real \<Rightarrow> real" where
  "degrees a = a * 180 / pi"

text \<open>\<^verbatim>\<open>p * m\<close>: the row vector \<^verbatim>\<open>p\<close> times the matrix \<^verbatim>\<open>m\<close>, all four coordinates.\<close>

definition point_times_matrix :: "MPoint \<Rightarrow> MMatrix \<Rightarrow> MPoint" where
  "point_times_matrix p m = MPoint
     (px p * m00 m + py p * m10 m + pz p * m20 m + pw p * m30 m)
     (px p * m01 m + py p * m11 m + pz p * m21 m + pw p * m31 m)
     (px p * m02 m + py p * m12 m + pz p * m22 m + pw p * m32 m)
     (px p * m03 m + py p * m13 m + pz p * m23 m + pw p * m33 m)"

text \<open>\<^verbatim>\<open>a * b\<close> for two matrices: each row of \<^verbatim>\<open>a\<close> times \<^verbatim>\<open>b\<close>.\<close>

definition matrix_times :: "MMatrix \<Rightarrow> MMatrix \<Rightarrow> MMatrix" where
  "matrix_times a b =
     (let r0 = point_times_matrix (MPoint (m00 a) (m01 a) (m02 a) (m03 a)) b;
          r1 = point_times_matrix (MPoint (m10 a) (m11 a) (m12 a) (m13 a)) b;
          r2 = point_times_matrix (MPoint (m20 a) (m21 a) (m22 a) (m23 a)) b;
          r3 = point_times_matrix (MPoint (m30 a) (m31 a) (m32 a) (m33 a)) b
      in MMatrix (px r0) (py r0) (pz r0) (pw r0)
                 (px r1) (py r1) (pz r1) (pw r1)
                 (px r2) (py r2) (pz r2) (pw r2)
                 (px r3) (py r3) (pz r3) (pw r3))"

definition identity_matrix :: MMatrix where
  "identity_matrix = MMatrix 1 0 0 0  0 1 0 0  0 0 1 0  0 0 0 1"

text \<open>
  \<^verbatim>\<open>m.inverse()\<close>, by cofactors: the adjugate divided by the determinant. The
  twelve 2 by 2 minors of the upper and the lower pair of rows are shared. The host
  does not say what the inverse of a singular matrix is; the lemma
  \<open>matrix_times_inverse\<close> below is stated for a determinant that is not zero.
\<close>

definition determinant :: "MMatrix \<Rightarrow> real" where
  "determinant m =
     (let s0 = m00 m * m11 m - m10 m * m01 m; s1 = m00 m * m12 m - m10 m * m02 m;
          s2 = m00 m * m13 m - m10 m * m03 m; s3 = m01 m * m12 m - m11 m * m02 m;
          s4 = m01 m * m13 m - m11 m * m03 m; s5 = m02 m * m13 m - m12 m * m03 m;
          c5 = m22 m * m33 m - m32 m * m23 m; c4 = m21 m * m33 m - m31 m * m23 m;
          c3 = m21 m * m32 m - m31 m * m22 m; c2 = m20 m * m33 m - m30 m * m23 m;
          c1 = m20 m * m32 m - m30 m * m22 m; c0 = m20 m * m31 m - m30 m * m21 m
      in s0 * c5 - s1 * c4 + s2 * c3 + s3 * c2 - s4 * c1 + s5 * c0)"

definition inverse_matrix :: "MMatrix \<Rightarrow> MMatrix" where
  "inverse_matrix m =
     (let s0 = m00 m * m11 m - m10 m * m01 m; s1 = m00 m * m12 m - m10 m * m02 m;
          s2 = m00 m * m13 m - m10 m * m03 m; s3 = m01 m * m12 m - m11 m * m02 m;
          s4 = m01 m * m13 m - m11 m * m03 m; s5 = m02 m * m13 m - m12 m * m03 m;
          c5 = m22 m * m33 m - m32 m * m23 m; c4 = m21 m * m33 m - m31 m * m23 m;
          c3 = m21 m * m32 m - m31 m * m22 m; c2 = m20 m * m33 m - m30 m * m23 m;
          c1 = m20 m * m32 m - m30 m * m22 m; c0 = m20 m * m31 m - m30 m * m21 m;
          d = determinant m
      in MMatrix
        ((m11 m * c5 - m12 m * c4 + m13 m * c3) / d)
        ((- m01 m * c5 + m02 m * c4 - m03 m * c3) / d)
        ((m31 m * s5 - m32 m * s4 + m33 m * s3) / d)
        ((- m21 m * s5 + m22 m * s4 - m23 m * s3) / d)
        ((- m10 m * c5 + m12 m * c2 - m13 m * c1) / d)
        ((m00 m * c5 - m02 m * c2 + m03 m * c1) / d)
        ((- m30 m * s5 + m32 m * s2 - m33 m * s1) / d)
        ((m20 m * s5 - m22 m * s2 + m23 m * s1) / d)
        ((m10 m * c4 - m11 m * c2 + m13 m * c0) / d)
        ((- m00 m * c4 + m01 m * c2 - m03 m * c0) / d)
        ((m30 m * s4 - m31 m * s2 + m33 m * s0) / d)
        ((- m20 m * s4 + m21 m * s2 - m23 m * s0) / d)
        ((- m10 m * c3 + m11 m * c1 - m12 m * c0) / d)
        ((m00 m * c3 - m01 m * c1 + m02 m * c0) / d)
        ((- m30 m * s3 + m31 m * s1 - m32 m * s0) / d)
        ((m20 m * s3 - m21 m * s1 + m22 m * s0) / d))"

subsection \<open>The host's view and camera\<close>

text \<open>
  What the module reads of an \<^verbatim>\<open>MFnCamera\<close>: its eye point and view direction in
  world space and its full path name. What it reads of an \<^verbatim>\<open>M3dView\<close>: the
  projection and model-view matrices, the port sizes and the camera.
\<close>

record MFnCamera =
  eyePoint :: MPoint
  viewDirection :: MVector
  fullPathName :: string

record M3dView =
  view_projectionMatrix :: MMatrix
  view_modelViewMatrix :: MMatrix
  view_portWidth :: int
  view_portHeight :: int
  view_camera :: MFnCamera

subsection \<open>getCamera\<close>

definition getCamera :: "M3dView \<Rightarrow> MFnCamera" where
  "getCamera view = view_camera view"

subsection \<open>worldToScreen\<close>

text \<open>
  The result is the pair the function returns: \<^verbatim>\<open>(None, None)\<close> or two floats. The
  two divisions by \<^verbatim>\<open>point3D.w\<close> are Python divisions of floats.
\<close>

definition py_div :: "real \<Rightarrow> real \<Rightarrow> error + real" where
  "py_div a b = (if b = 0 then Inl ZeroDivisionError else Inr (a / b))"

definition worldToScreen ::
  "MFnCamera \<Rightarrow> MPoint \<Rightarrow> MPoint \<Rightarrow> M3dView \<Rightarrow> error + (real option \<times> real option)" where
  "worldToScreen fnCamera cameraPoint transformPoint view =
     (let cameraDir = viewDirection fnCamera;
          projectionMatrix = view_projectionMatrix view;
          viewMatrix = view_modelViewMatrix view;
          width = view_portWidth view;
          height = view_portHeight view;
          pointDir = point_minus transformPoint cameraPoint;
          z = dot pointDir cameraDir
      in if z < 0.01 then Inr (None, None)
         else
           (let point3D = point_times_matrix transformPoint
                            (matrix_times viewMatrix projectionMatrix)
            in case py_div (px point3D) (pw point3D) of
                 Inl e \<Rightarrow> Inl e
               | Inr qx \<Rightarrow>
                   (case py_div (py point3D) (pw point3D) of
                      Inl e \<Rightarrow> Inl e
                    | Inr qy \<Rightarrow>
                        Inr (Some (((qx + 1.0) / 2.0) * real_of_int width),
                             Some (((qy + 1.0) / 2.0) * real_of_int height)))))"

subsection \<open>screenToWorld\<close>

text \<open>
  The function has two parts, each under a comment of its own in the source. The first
  (\<^verbatim>\<open># Get 2d point in 3d.\<close>) turns the pixel into a homogeneous point and multiplies
  it by the inverse of the view-projection matrix; it is \<open>screenToWorld_point3D\<close>.
  The clip-space \<^verbatim>\<open>z\<close> and \<^verbatim>\<open>w\<close> it uses are the entries (3, 2) and (3, 3) of the
  view-projection matrix. The second (\<^verbatim>\<open># Project point into setDistance depth.\<close>)
  moves the point to the distance \<^verbatim>\<open>setDistance\<close> from the camera.
\<close>

definition screenToWorld_point3D :: "real \<times> real \<Rightarrow> M3dView \<Rightarrow> error + MPoint" where
  "screenToWorld_point3D point2D view =
     (let projectionMatrix = view_projectionMatrix view;
          viewMatrix = view_modelViewMatrix view;
          width = view_portWidth view;
          height = view_portHeight view
      in case py_div (fst point2D) (real_of_int width) of
           Inl e \<Rightarrow> Inl e
         | Inr rx \<Rightarrow>
             (case py_div (snd point2D) (real_of_int height) of
                Inl e \<Rightarrow> Inl e
              | Inr ry \<Rightarrow>
                  (let x0 = (2.0 * rx) - 1.0;
                       y0 = (2.0 * ry) - 1.0;
                       viewProjectionMatrix = matrix_times viewMatrix projectionMatrix;
                       z = m32 viewProjectionMatrix;
                       w = m33 viewProjectionMatrix;
                       point3D = MPoint (x0 * w) (y0 * w) z w
                   in Inr (point_times_matrix point3D
                             (inverse_matrix viewProjectionMatrix)))))"

definition screenToWorld :: "real \<times> real \<Rightarrow> MPoint \<Rightarrow> real \<Rightarrow> M3dView \<Rightarrow> error + MPoint" where
  "screenToWorld point2D cameraPoint setDistance view =
     (case screenToWorld_point3D point2D view of
        Inl e \<Rightarrow> Inl e
      | Inr point3D \<Rightarrow>
          (let directionVec = normalize (point_minus point3D cameraPoint);
               point3D' = vector_plus (vector_scale directionVec setDistance)
                            (MVector_of_MPoint cameraPoint)
           in Inr (MPoint_of_MVector point3D')))"

subsection \<open>The scene and the host's commands\<close>

text \<open>
  What the module reads of the scene: which names exist, the node type and the
  world-space translation of each, the active view, and the views of the model panels.
  \<^verbatim>\<open>cmds.xform(name, query=True, worldSpace=True, translation=True)\<close> raises when no
  object matches the name.
\<close>

record node =
  node_type :: string
  node_translation :: "real \<times> real \<times> real"

record scene =
  scene_nodes :: "string \<rightharpoonup> node"
  scene_activeView :: M3dView
  scene_modelPanels :: "string \<rightharpoonup> M3dView"



definition cmds_xform_translation :: "scene \<Rightarrow> string \<Rightarrow> error + real \<times> real \<times> real" where
  "cmds_xform_translation sc name =
     (case scene_nodes sc name of
        None \<Rightarrow> Inl ValueError
      | Some n \<Rightarrow> Inr (node_translation n))"

text \<open>
  The commands the module issues, in the order it issues them. \<open>Move x y z name\<close> is
  \<^verbatim>\<open>cmds.move(x, y, z, name, relative=True)\<close>, \<open>Rotate x y z name\<close> is
  \<^verbatim>\<open>cmds.rotate(x, y, z, name, objectSpace=True, relative=True)\<close>, and the two others
  are \<^verbatim>\<open>cmds.undoInfo(openChunk=True)\<close> and \<^verbatim>\<open>cmds.undoInfo(closeChunk=True)\<close>.
\<close>

datatype command =
    UndoInfo_openChunk
  | UndoInfo_closeChunk
  | Move real real real string
  | Rotate real real real string

text \<open>The names whose transform a list of commands changes.\<close>

fun mutated :: "command list \<Rightarrow> string set" where
  "mutated [] = {}"
| "mutated (Move a b c name # cs) = insert name (mutated cs)"
| "mutated (Rotate a b c name # cs) = insert name (mutated cs)"
| "mutated (_ # cs) = mutated cs"

text \<open>The sum of the relative moves that a list of commands applies to a name.\<close>

fun net_translation :: "command list \<Rightarrow> string \<Rightarrow> MVector" where
  "net_translation [] name = MVector 0 0 0"
| "net_translation (Move a b c n # cs) name =
     (if n = name then vector_plus (MVector a b c) (net_translation cs name)
      else net_translation cs name)"
| "net_translation (_ # cs) name = net_translation cs name"

subsection \<open>nudge\<close>

text \<open>
  The locals of \<^verbatim>\<open>nudge\<close> when it reaches \<^verbatim>\<open>cmds.undoInfo(openChunk=True)\<close>.
\<close>

record nudge_locals =
  loc_cameraPoint :: MPoint
  loc_transformPoint :: MPoint
  loc_pointDist :: real
  loc_startDirVec :: MVector
  loc_xyz_x :: MPoint
  loc_xyz_y :: MPoint
  loc_offsetX :: MVector
  loc_offsetY :: MVector

text \<open>\<^verbatim>\<open>x + pixelAmount[0]\<close>, where \<^verbatim>\<open>x\<close> may be \<^verbatim>\<open>None\<close>.\<close>

definition py_add :: "real option \<Rightarrow> real \<Rightarrow> error + real" where
  "py_add a b = (case a of None \<Rightarrow> Inl TypeError | Some a' \<Rightarrow> Inr (a' + b))"

text \<open>
  The first part of \<^verbatim>\<open>nudge\<close>, up to the two offsets. Every exception that
  \<^verbatim>\<open>nudge\<close> can raise is raised here, before the first command is issued. The
  first to be evaluated of the four list elements is \<^verbatim>\<open>x + pixelAmount[0]\<close>; once it
  has succeeded \<^verbatim>\<open>x\<close> is a float, and so is \<^verbatim>\<open>y\<close>, since \<^verbatim>\<open>worldToScreen\<close>
  returns \<^verbatim>\<open>None\<close> for both or for neither (lemma \<open>worldToScreen_both_or_neither\<close>);
  a \<^verbatim>\<open>None\<close> used as a number anywhere else would raise the same \<^verbatim>\<open>TypeError\<close>.
\<close>

definition nudge_offsets ::
  "scene \<Rightarrow> string \<Rightarrow> real \<times> real \<Rightarrow> M3dView \<Rightarrow> error + nudge_locals" where
  "nudge_offsets sc transformName pixelAmount view =
     (let fnCamera = getCamera view;
          cameraPoint = eyePoint fnCamera
      in case cmds_xform_translation sc transformName of
           Inl e \<Rightarrow> Inl e
         | Inr (tx, ty, tz) \<Rightarrow>
             (let transformPoint = MPoint3 tx ty tz;
                  startDirVec = point_minus transformPoint cameraPoint;
                  pointDist = vector_length startDirVec;
                  startDirVec = normalize startDirVec
              in case worldToScreen fnCamera cameraPoint transformPoint view of
                   Inl e \<Rightarrow> Inl e
                 | Inr (x, y) \<Rightarrow>
                     (case py_add x (fst pixelAmount) of
                        Inl e \<Rightarrow> Inl e
                      | Inr x_dx \<Rightarrow>
                     (case (x, y) of
                        (Some x', Some y') \<Rightarrow>
                     (case screenToWorld (x_dx, y') cameraPoint pointDist view of
                        Inl e \<Rightarrow> Inl e
                      | Inr xyz_x \<Rightarrow>
                     (case py_add y (snd pixelAmount) of
                        Inl e \<Rightarrow> Inl e
                      | Inr y_dy \<Rightarrow>
                     (case screenToWorld (x', y_dy) cameraPoint pointDist view of
                        Inl e \<Rightarrow> Inl e
                      | Inr xyz_y \<Rightarrow>
                          Inr \<lparr> loc_cameraPoint = cameraPoint,
                                loc_transformPoint = transformPoint,
                                loc_pointDist = pointDist,
                                loc_startDirVec = startDirVec,
                                loc_xyz_x = xyz_x,
                                loc_xyz_y = xyz_y,
                                loc_offsetX = vector_plus (point_minus xyz_x transformPoint)
                                                (MVector_of_MPoint transformPoint),
                                loc_offsetY = vector_plus (point_minus xyz_y transformPoint)
                                                (MVector_of_MPoint transformPoint) \<rparr>)))
                      | _ \<Rightarrow> Inl TypeError))))"

text \<open>
  The second part: the commands, from \<^verbatim>\<open>cmds.undoInfo(openChunk=True)\<close> to
  \<^verbatim>\<open>cmds.undoInfo(closeChunk=True)\<close>.
\<close>

definition nudge_commands ::
  "nudge_locals \<Rightarrow> string \<Rightarrow> bool \<Rightarrow> bool \<Rightarrow> MFnCamera \<Rightarrow> command list" where
  "nudge_commands l transformName moveObject rotateView fnCamera =
     [UndoInfo_openChunk] @
     (if moveObject then
        [Move (vx (loc_offsetX l)) (vy (loc_offsetX l)) (vz (loc_offsetX l)) transformName,
         Move (vx (loc_offsetY l)) (vy (loc_offsetY l)) (vz (loc_offsetY l)) transformName]
      else
        [Move (vx (loc_offsetX l)) (vy (loc_offsetX l)) (vz (loc_offsetX l))
           (fullPathName fnCamera),
         Move (vx (loc_offsetY l)) (vy (loc_offsetY l)) (vz (loc_offsetY l))
           (fullPathName fnCamera)] @
        (if rotateView then
           (let x_nDirVec = normalize (point_minus (loc_xyz_x l) (loc_cameraPoint l));
                angleX = degrees (angle (loc_startDirVec l) x_nDirVec);
                y_nDirVec = normalize (point_minus (loc_xyz_y l) (loc_cameraPoint l));
                angleY = - degrees (angle (loc_startDirVec l) y_nDirVec)
            in [Rotate angleY angleX 0 (fullPathName fnCamera)])
         else [])) @
     [UndoInfo_closeChunk]"

text \<open>
  \<^verbatim>\<open>nudge\<close>: the commands issued, and then \<^verbatim>\<open>None\<close> returned or the exception
  raised.
\<close>

definition nudge ::
  "scene \<Rightarrow> string \<Rightarrow> real \<times> real \<Rightarrow> bool \<Rightarrow> bool \<Rightarrow> M3dView \<Rightarrow> command list \<times> (error + unit)" where
  "nudge sc transformName pixelAmount moveObject rotateView view =
     (case nudge_offsets sc transformName pixelAmount view of
        Inl e \<Rightarrow> ([], Inl e)
      | Inr l \<Rightarrow>
          (nudge_commands l transformName moveObject rotateView (getCamera view), Inr ()))"

subsection \<open>parseArgs\<close>








subsection \<open>Concrete scenes\<close>

text \<open>
  Inputs for the closed theorems below. The projection is a perspective projection
  with a square field of view of 90 degrees, near plane 1 and far plane 3, in the
  row-vector layout. The camera sits on the world's z axis at height \<open>c\<close>, unrotated,
  so that it looks down the negative z axis and its model-view matrix is the
  translation by \<open>- c\<close>. The scene has one transform, \<^verbatim>\<open>pSphere1\<close>, on the z axis at
  height \<open>t\<close>. The port is 640 by 480 pixels.
\<close>

definition perspective_matrix :: MMatrix where
  "perspective_matrix = MMatrix 1 0 0 0  0 1 0 0  0 0 (- 2) (- 1)  0 0 (- 3) 0"

definition camera_on_z :: "real \<Rightarrow> MFnCamera" where
  "camera_on_z c =
     \<lparr> eyePoint = MPoint3 0 0 c,
       viewDirection = MVector 0 0 (- 1),
       fullPathName = ''|persp|perspShape'' \<rparr>"

definition view_on_z :: "real \<Rightarrow> M3dView" where
  "view_on_z c =
     \<lparr> view_projectionMatrix = perspective_matrix,
       view_modelViewMatrix = MMatrix 1 0 0 0  0 1 0 0  0 0 1 0  0 0 (- c) 1,
       view_portWidth = 640,
       view_portHeight = 480,
       view_camera = camera_on_z c \<rparr>"

definition scene_on_z :: "real \<Rightarrow> real \<Rightarrow> scene" where
  "scene_on_z c t =
     \<lparr> scene_nodes =
         [''pSphere1'' \<mapsto> \<lparr> node_type = ''transform'', node_translation = (0, 0, t) \<rparr>],
       scene_activeView = view_on_z c,
       scene_modelPanels = [''modelPanel4'' \<mapsto> view_on_z c] \<rparr>"

text \<open>
  The locals of \<^verbatim>\<open>nudge\<close> for the camera at height 2, the target at height 1 and
  the pixel amount \<open>(240, 180)\<close>; the lemma \<open>nudge_offsets_example\<close> computes them.
\<close>

definition example_locals :: nudge_locals where
  "example_locals =
     \<lparr> loc_cameraPoint = MPoint3 0 0 2,
       loc_transformPoint = MPoint3 0 0 1,
       loc_pointDist = 1,
       loc_startDirVec = MVector 0 0 (- 1),
       loc_xyz_x = MPoint3 (3 / 5) 0 (6 / 5),
       loc_xyz_y = MPoint3 0 (3 / 5) (6 / 5),
       loc_offsetX = MVector (3 / 5) 0 (6 / 5),
       loc_offsetY = MVector 0 (3 / 5) (6 / 5) \<rparr>"

text \<open>
  A camera at the world origin whose transform is sheared: its x axis is
  \<open>(1, 0, - 1)\<close> in world space, its y and z axes are the world's, so that it still
  looks down the negative z axis. The model-view matrix is the inverse of that
  transform.
\<close>

definition sheared_view :: M3dView where
  "sheared_view =
     \<lparr> view_projectionMatrix = perspective_matrix,
       view_modelViewMatrix = MMatrix 1 0 1 0  0 1 0 0  0 0 1 0  0 0 0 1,
       view_portWidth = 640,
       view_portHeight = 480,
       view_camera = camera_on_z 0 \<rparr>"

subsection \<open>The specification's pixel mapping\<close>

text \<open>
  The specification maps a normalized device coordinate \<open>n\<close> to pixels
  "via \<open>((n+1)/2) * dimension\<close>". This definition follows those words; the theorem for
  the pixel coordinates compares it with what \<open>worldToScreen\<close> computes.
\<close>

definition spec_ndc_to_pixel :: "real \<Rightarrow> real \<Rightarrow> real" where
  "spec_ndc_to_pixel n dimension = ((n + 1) / 2) * dimension"

subsection \<open>The offsets in double arithmetic\<close>

text \<open>
  The host's vector classes hold IEEE doubles, and each subtraction and addition of the
  source rounds its exact result to the nearest double. For the one claim that depends
  on that rounding, the expression
  \<^verbatim>\<open>(xyz_x - transformPoint) + OpenMaya.MVector(transformPoint)\<close> is modelled a second
  time, with the rounding. \<open>double_round\<close> rounds a real to the nearest number with a
  significand of 53 bits, ties to the even significand; overflow and subnormal numbers
  are outside it. \<open>double_offset\<close> is the expression for two points with \<open>w = 1\<close>,
  which is what the two points of \<^verbatim>\<open>nudge\<close> are.
\<close>

definition round_half_even :: "real \<Rightarrow> int" where
  "round_half_even y =
     (let f = \<lfloor>y\<rfloor>; d = y - of_int f
      in if d < 1 / 2 then f
         else if 1 / 2 < d then f + 1
         else if even f then f else f + 1)"

definition double_round :: "real \<Rightarrow> real" where
  "double_round x =
     (if x = 0 then 0
      else (let ulp = 2 powr (of_int \<lfloor>log 2 \<bar>x\<bar>\<rfloor> - 52)
            in ulp * of_int (round_half_even (x / ulp))))"

definition double_offset :: "MPoint \<Rightarrow> MPoint \<Rightarrow> MVector" where
  "double_offset xyz transformPoint = MVector
     (double_round (double_round (px xyz - px transformPoint) + px transformPoint))
     (double_round (double_round (py xyz - py transformPoint) + py transformPoint))
     (double_round (double_round (pz xyz - pz transformPoint) + pz transformPoint))"

text \<open>The rotate commands in a list of commands.\<close>

fun rotations :: "command list \<Rightarrow> command list" where
  "rotations [] = []"
| "rotations (Rotate a b c name # cs) = Rotate a b c name # rotations cs"
| "rotations (_ # cs) = rotations cs"

section \<open>Properties of the vector classes\<close>

lemmas vector_defs = MPoint3_def MPoint_of_MVector_def MVector_of_MPoint_def cartesianize_def
  point_minus_def vector_plus_def vector_scale_def dot_def vector_length_def normalize_def

lemmas matrix_defs = point_times_matrix_def matrix_times_def determinant_def inverse_matrix_def

lemmas scene_defs = perspective_matrix_def camera_on_z_def view_on_z_def scene_on_z_def
  sheared_view_def

text \<open>Multiplying a point by two matrices in turn is multiplying it by their product.\<close>

lemma point_times_assoc:
  "point_times_matrix (point_times_matrix p a) b = point_times_matrix p (matrix_times a b)"
  by (simp add: point_times_matrix_def matrix_times_def Let_def algebra_simps)

lemma point_times_identity: "point_times_matrix p identity_matrix = p"
  by (cases p) (simp add: point_times_matrix_def identity_matrix_def)

text \<open>
  The cofactor formula is an inverse: each entry of the product is a sum of four
  quotients by the determinant, whose numerators add up to the determinant on the
  diagonal and to zero elsewhere.
\<close>

lemma matrix_times_inverse:
  assumes "determinant m \<noteq> 0"
  shows "matrix_times m (inverse_matrix m) = identity_matrix"
proof (cases m)
  case (MMatrix a00 a01 a02 a03 a10 a11 a12 a13 a20 a21 a22 a23 a30 a31 a32 a33)
  define d where "d = determinant m"
  have d0: "d \<noteq> 0" using assms by (simp add: d_def)
  have dv: "d = (a00 * a11 - a10 * a01) * (a22 * a33 - a32 * a23)
              - (a00 * a12 - a10 * a02) * (a21 * a33 - a31 * a23)
              + (a00 * a13 - a10 * a03) * (a21 * a32 - a31 * a22)
              + (a01 * a12 - a11 * a02) * (a20 * a33 - a30 * a23)
              - (a01 * a13 - a11 * a03) * (a20 * a32 - a30 * a22)
              + (a02 * a13 - a12 * a03) * (a20 * a31 - a30 * a21)"
    by (simp add: d_def determinant_def MMatrix Let_def)
  have dm: "determinant
              (MMatrix a00 a01 a02 a03 a10 a11 a12 a13 a20 a21 a22 a23 a30 a31 a32 a33) = d"
    by (simp add: d_def MMatrix)
  have q: "\<And>x y z w p q r s.
             x * (p / d) + y * (q / d) + z * (r / d) + w * (s / d)
             = (x * p + y * q + z * r + w * s) / d"
    by (simp add: add_divide_distrib)
  have one: "\<And>n. n = d \<Longrightarrow> n / d = 1" using d0 by simp
  have zero: "\<And>n. n = 0 \<Longrightarrow> n / d = 0" by simp
  show ?thesis
    unfolding MMatrix
    unfolding matrix_times_def inverse_matrix_def identity_matrix_def point_times_matrix_def
      Let_def dm MMatrix.sel MPoint.sel MMatrix.inject q
    apply (intro conjI)
    subgoal by (rule one) (simp add: dv algebra_simps)
    subgoal by (rule zero) (simp add: algebra_simps)
    subgoal by (rule zero) (simp add: algebra_simps)
    subgoal by (rule zero) (simp add: algebra_simps)
    subgoal by (rule zero) (simp add: algebra_simps)
    subgoal by (rule one) (simp add: dv algebra_simps)
    subgoal by (rule zero) (simp add: algebra_simps)
    subgoal by (rule zero) (simp add: algebra_simps)
    subgoal by (rule zero) (simp add: algebra_simps)
    subgoal by (rule zero) (simp add: algebra_simps)
    subgoal by (rule one) (simp add: dv algebra_simps)
    subgoal by (rule zero) (simp add: algebra_simps)
    subgoal by (rule zero) (simp add: algebra_simps)
    subgoal by (rule zero) (simp add: algebra_simps)
    subgoal by (rule zero) (simp add: algebra_simps)
    subgoal by (rule one) (simp add: dv algebra_simps)
    done
qed

lemma vector_length_nonneg: "0 \<le> vector_length v"
  by (simp add: vector_length_def)

lemma vector_length_zero_iff: "vector_length v = 0 \<longleftrightarrow> v = MVector 0 0 0"
proof (cases v)
  case (MVector a b c)
  have "a * a + b * b + c * c = 0 \<longleftrightarrow> a = 0 \<and> b = 0 \<and> c = 0"
    by (smt (verit) mult_eq_0_iff zero_le_square add_nonneg_eq_0_iff add_nonneg_nonneg)
  then show ?thesis by (simp add: vector_length_def MVector)
qed

lemma vector_length_scale: "vector_length (vector_scale v s) = \<bar>s\<bar> * vector_length v"
proof -
  have "vx v * s * (vx v * s) + vy v * s * (vy v * s) + vz v * s * (vz v * s)
        = (s * s) * (vx v * vx v + vy v * vy v + vz v * vz v)"
    by (simp add: algebra_simps)
  then show ?thesis
    by (simp add: vector_length_def vector_scale_def real_sqrt_mult)
qed

lemma vector_length_normalize:
  assumes "vector_length v \<noteq> 0"
  shows "vector_length (normalize v) = 1"
proof -
  have "normalize v = vector_scale v (1 / vector_length v)"
    using assms by (simp add: normalize_def vector_scale_def)
  then have "vector_length (normalize v) = \<bar>1 / vector_length v\<bar> * vector_length v"
    by (simp only: vector_length_scale)
  then show ?thesis using assms vector_length_nonneg [of v] by simp
qed

text \<open>
  The cosine that \<open>angle\<close> takes the arc cosine of lies between \<open>- 1\<close> and 1, by
  Lagrange's identity, so the angle lies between 0 and \<open>pi\<close>.
\<close>

lemma dot_squared_le:
  "(dot u v)\<^sup>2 \<le> (vector_length u)\<^sup>2 * (vector_length v)\<^sup>2"
proof -
  have l: "\<And>w. (vector_length w)\<^sup>2 = vx w * vx w + vy w * vy w + vz w * vz w"
    by (simp add: vector_length_def)
  have "(vector_length u)\<^sup>2 * (vector_length v)\<^sup>2 - (dot u v)\<^sup>2
        = (vx u * vy v - vy u * vx v)\<^sup>2 + (vx u * vz v - vz u * vx v)\<^sup>2
          + (vy u * vz v - vz u * vy v)\<^sup>2"
    unfolding l by (simp add: dot_def power2_eq_square algebra_simps)
  moreover have "0 \<le> (vx u * vy v - vy u * vx v)\<^sup>2 + (vx u * vz v - vz u * vx v)\<^sup>2
          + (vy u * vz v - vz u * vy v)\<^sup>2"
    by simp
  ultimately show ?thesis by linarith
qed

lemma abs_dot_le: "\<bar>dot u v\<bar> \<le> vector_length u * vector_length v"
proof -
  have "(dot u v)\<^sup>2 \<le> (vector_length u * vector_length v)\<^sup>2"
    using dot_squared_le [of u v] by (simp add: power_mult_distrib)
  then show ?thesis
    using vector_length_nonneg [of u] vector_length_nonneg [of v]
    by (metis abs_le_square_iff abs_of_nonneg mult_nonneg_nonneg)
qed

lemma cosine_range:
  "- 1 \<le> dot u v / (vector_length u * vector_length v) \<and>
   dot u v / (vector_length u * vector_length v) \<le> 1"
proof (cases "vector_length u * vector_length v = 0")
  case True
  show ?thesis unfolding True by simp
next
  case False
  then have pos: "0 < vector_length u * vector_length v"
    using vector_length_nonneg [of u] vector_length_nonneg [of v]
    by (metis less_eq_real_def mult_nonneg_nonneg)
  have "\<bar>dot u v\<bar> \<le> vector_length u * vector_length v" by (rule abs_dot_le)
  then show ?thesis using pos by (simp add: field_simps abs_le_iff)
qed

lemma angle_range: "0 \<le> angle u v \<and> angle u v \<le> pi"
  using cosine_range [of u v] by (simp add: angle_def arccos_lbound arccos_ubound)

lemma degrees_nonneg: "0 \<le> a \<Longrightarrow> 0 \<le> degrees a"
  by (simp add: degrees_def)

text \<open>Two points with \<open>w = 1\<close>: subtracting one and adding it back cancels.\<close>

lemma offset_cancels:
  "pw p = 1 \<Longrightarrow> pw t = 1 \<Longrightarrow>
   vector_plus (point_minus p t) (MVector_of_MPoint t) = MVector_of_MPoint p"
  by (simp add: point_minus_def vector_plus_def MVector_of_MPoint_def)

section \<open>worldToScreen\<close>

lemma worldToScreen_both_or_neither:
  "worldToScreen fnCamera cameraPoint transformPoint view = Inr (x, y) \<Longrightarrow>
   (x = None \<and> y = None) \<or> (\<exists>a b. x = Some a \<and> y = Some b)"
  by (auto simp add: worldToScreen_def Let_def py_div_def split: if_splits)

text \<open>
  Claim C4. \<open>worldToScreen\<close> returns the pair \<^verbatim>\<open>(None, None)\<close> exactly when the
  depth of the target point, the dot product of \<open>transformPoint - cameraPoint\<close> with
  the camera's view direction, is less than 0.01. The pair is a returned value
  (\<open>Inr\<close>), not an exception (\<open>Inl\<close>).
\<close>

theorem worldToScreen_sentinel_iff:
  "worldToScreen fnCamera cameraPoint transformPoint view = Inr (None, None)
   \<longleftrightarrow> dot (point_minus transformPoint cameraPoint) (viewDirection fnCamera) < 0.01"
  by (simp add: worldToScreen_def Let_def py_div_def)

text \<open>
  Claim C5, amended. For a target point of depth at least 0.01, let \<open>c\<close> be the point
  times the product of the view matrix and the projection matrix. When the homogeneous
  coordinate \<open>w\<close> of \<open>c\<close> is not zero, \<open>worldToScreen\<close> returns the pixel coordinates
  that the specification's mapping gives for \<open>x / w\<close> with the port width and for
  \<open>y / w\<close> with the port height.
\<close>

theorem worldToScreen_pixels:
  assumes "0.01 \<le> dot (point_minus transformPoint cameraPoint) (viewDirection fnCamera)"
    and "c = point_times_matrix transformPoint
               (matrix_times (view_modelViewMatrix view) (view_projectionMatrix view))"
    and "pw c \<noteq> 0"
  shows "worldToScreen fnCamera cameraPoint transformPoint view =
           Inr (Some (spec_ndc_to_pixel (px c / pw c) (real_of_int (view_portWidth view))),
                Some (spec_ndc_to_pixel (py c / pw c) (real_of_int (view_portHeight view))))"
  using assms by (simp add: worldToScreen_def Let_def py_div_def spec_ndc_to_pixel_def)

text \<open>
  The theorem at the camera at height 2 and the target at height 1 on the z axis: the
  depth is 1, the clip coordinates are \<open>(0, 0, - 1, 1)\<close> with \<open>w = 1\<close>, and the pixel
  is the centre of the port.
\<close>

theorem worldToScreen_pixels_witness:
  "0.01 \<le> dot (point_minus (MPoint3 0 0 1) (MPoint3 0 0 2)) (viewDirection (camera_on_z 2)) \<and>
   worldToScreen (camera_on_z 2) (MPoint3 0 0 2) (MPoint3 0 0 1) (view_on_z 2) =
     Inr (Some 320, Some 240)"
proof -
  have d: "0.01 \<le> dot (point_minus (MPoint3 0 0 1) (MPoint3 0 0 2))
                    (viewDirection (camera_on_z 2))"
    by (simp add: vector_defs scene_defs)
  have c: "MPoint 0 0 (- 1) 1 = point_times_matrix (MPoint3 0 0 1)
             (matrix_times (view_modelViewMatrix (view_on_z 2))
                (view_projectionMatrix (view_on_z 2)))"
    by (simp add: vector_defs matrix_defs scene_defs)
  have w: "pw (MPoint 0 0 (- 1) 1) \<noteq> 0" by simp
  show ?thesis
    using d worldToScreen_pixels [OF d c w]
    by (simp add: spec_ndc_to_pixel_def scene_defs)
qed

text \<open>
  Without the condition on \<open>w\<close> the statement fails at the sheared camera: the point
  \<open>(1, 0, - 1)\<close> has depth 1 and clip coordinates \<open>(1, 0, - 3, 0)\<close>, and the division
  by \<open>w\<close> raises \<^verbatim>\<open>ZeroDivisionError\<close>.
\<close>

theorem worldToScreen_zero_w_counterexample:
  "0.01 \<le> dot (point_minus (MPoint3 1 0 (- 1)) (eyePoint (getCamera sheared_view)))
            (viewDirection (getCamera sheared_view)) \<and>
   point_times_matrix (MPoint3 1 0 (- 1))
     (matrix_times (view_modelViewMatrix sheared_view) (view_projectionMatrix sheared_view))
     = MPoint 1 0 (- 3) 0 \<and>
   worldToScreen (getCamera sheared_view) (eyePoint (getCamera sheared_view))
     (MPoint3 1 0 (- 1)) sheared_view = Inl ZeroDivisionError"
  by (simp add: worldToScreen_def getCamera_def py_div_def Let_def vector_defs matrix_defs
      scene_defs)

section \<open>screenToWorld\<close>

lemma screenToWorld_Inr:
  assumes "screenToWorld point2D cameraPoint setDistance view = Inr p"
  obtains q where
    "screenToWorld_point3D point2D view = Inr q"
    "p = MPoint_of_MVector
           (vector_plus (vector_scale (normalize (point_minus q cameraPoint)) setDistance)
              (MVector_of_MPoint cameraPoint))"
  using assms by (auto simp add: screenToWorld_def Let_def split: sum.splits)

lemma screenToWorld_w:
  "screenToWorld point2D cameraPoint setDistance view = Inr p \<Longrightarrow> pw p = 1"
  by (auto simp add: screenToWorld_def MPoint_of_MVector_def Let_def split: sum.splits)

text \<open>The function returns whenever the port has a width and a height.\<close>

lemma screenToWorld_returns:
  "view_portWidth view \<noteq> 0 \<Longrightarrow> view_portHeight view \<noteq> 0 \<Longrightarrow>
   \<exists>p. screenToWorld point2D cameraPoint setDistance view = Inr p"
  by (simp add: screenToWorld_def screenToWorld_point3D_def py_div_def Let_def)

lemma plus_minus_camera:
  "pw c = 1 \<Longrightarrow>
   point_minus (MPoint_of_MVector (vector_plus v (MVector_of_MPoint c))) c = v"
  by (cases v) (simp add: vector_defs)

lemma zero_plus_camera:
  "pw c = 1 \<Longrightarrow>
   MPoint_of_MVector (vector_plus (vector_scale (MVector 0 0 0) s) (MVector_of_MPoint c)) = c"
  by (cases c) (simp add: vector_defs)

text \<open>
  The second part of the function. If the direction from the camera to the unprojected
  point has length zero, it stays zero and the result is the camera point; so a result
  other than the camera point comes from a direction of length 1, scaled by
  \<open>setDistance\<close>.
\<close>

lemma screenToWorld_distance_lemma:
  assumes r: "screenToWorld point2D cameraPoint setDistance view = Inr p"
    and w: "pw cameraPoint = 1"
    and s: "0 \<le> setDistance"
    and ne: "p \<noteq> cameraPoint"
  shows "vector_length (point_minus p cameraPoint) = setDistance \<and>
         (\<exists>q. screenToWorld_point3D point2D view = Inr q \<and>
              point_minus p cameraPoint =
                vector_scale (point_minus q cameraPoint)
                  (setDistance / vector_length (point_minus q cameraPoint)))"
proof -
  from r obtain q where
    q: "screenToWorld_point3D point2D view = Inr q"
    and p: "p = MPoint_of_MVector
           (vector_plus (vector_scale (normalize (point_minus q cameraPoint)) setDistance)
              (MVector_of_MPoint cameraPoint))"
    by (rule screenToWorld_Inr)
  define d where "d = point_minus q cameraPoint"
  have len: "vector_length d \<noteq> 0"
  proof
    assume "vector_length d = 0"
    then have "normalize d = MVector 0 0 0"
      by (simp add: normalize_def vector_length_zero_iff)
    then have "p = cameraPoint"
      using p w by (simp add: d_def [symmetric] zero_plus_camera)
    with ne show False by simp
  qed
  have diff: "point_minus p cameraPoint = vector_scale (normalize d) setDistance"
    unfolding p d_def using w by (rule plus_minus_camera)
  have "vector_length (point_minus p cameraPoint)
        = \<bar>setDistance\<bar> * vector_length (normalize d)"
    unfolding diff by (rule vector_length_scale)
  then have dist: "vector_length (point_minus p cameraPoint) = setDistance"
    using s vector_length_normalize [OF len] by simp
  have "vector_scale (normalize d) setDistance
        = vector_scale d (setDistance / vector_length d)"
    using len by (simp add: normalize_def vector_scale_def)
  with diff have "point_minus p cameraPoint
                  = vector_scale (point_minus q cameraPoint)
                      (setDistance / vector_length (point_minus q cameraPoint))"
    by (simp add: d_def)
  with dist q show ?thesis by blast
qed

subsection \<open>The camera on the z axis\<close>

text \<open>
  The view-projection matrix of the camera at height \<open>c\<close> and its inverse. The entries
  (3, 2) and (3, 3), which \<open>screenToWorld\<close> takes for the clip-space \<open>z\<close> and \<open>w\<close> of
  every pixel, are \<open>2 * c - 3\<close> and \<open>c\<close>: the clip coordinates of the world's origin.
\<close>

lemma view_projection_on_z:
  "matrix_times (view_modelViewMatrix (view_on_z c)) (view_projectionMatrix (view_on_z c))
   = MMatrix 1 0 0 0  0 1 0 0  0 0 (- 2) (- 1)  0 0 (2 * c - 3) c"
  by (simp add: matrix_defs scene_defs)

lemma inverse_on_z:
  "inverse_matrix (MMatrix 1 0 0 0  0 1 0 0  0 0 (- 2) (- 1)  0 0 (2 * c - 3) c)
   = MMatrix 1 0 0 0  0 1 0 0  0 0 (- c / 3) (- 1 / 3)  0 0 ((2 * c - 3) / 3) (2 / 3)"
  by (simp add: matrix_defs)

lemma fullPathName_on_z: "fullPathName (getCamera (view_on_z c)) = ''|persp|perspShape''"
  by (simp add: getCamera_def view_on_z_def camera_on_z_def)

text \<open>A target on the axis in front of the camera projects to the centre of the port.\<close>

lemma worldToScreen_on_z:
  assumes "t \<le> c - 0.01"
  shows "worldToScreen (camera_on_z c) (MPoint3 0 0 c) (MPoint3 0 0 t) (view_on_z c)
         = Inr (Some 320, Some 240)"
proof -
  have "\<not> c - t < 0.01" "t - c \<noteq> 0" "c - t \<noteq> 0" using assms by simp_all
  then show ?thesis
    by (simp add: worldToScreen_def view_projection_on_z py_div_def Let_def vector_defs
        point_times_matrix_def camera_on_z_def)
      (simp add: view_on_z_def)
qed

text \<open>
  The centre of the port unprojects to the world's origin, wherever the camera is on
  the axis: in front of the origin, behind it, or at it.
\<close>

lemma screenToWorld_point3D_on_z:
  "screenToWorld_point3D (320, 240) (view_on_z c) = Inr (MPoint 0 0 0 1)"
  apply (simp add: screenToWorld_point3D_def view_projection_on_z py_div_def Let_def)
  apply (simp add: view_on_z_def inverse_on_z)
  apply (simp add: point_times_matrix_def field_simps)
  done

lemma screenToWorld_on_z:
  "screenToWorld (320, 240) (MPoint3 0 0 c) s (view_on_z c) =
     Inr (MPoint3 0 0 (if 0 < c then c - s else if c < 0 then c + s else 0))"
proof -
  have d: "point_minus (MPoint 0 0 0 1) (MPoint3 0 0 c) = MVector 0 0 (- c)"
    by (simp add: vector_defs)
  have l: "vector_length (MVector 0 0 (- c)) = \<bar>c\<bar>"
    by (simp add: vector_length_def)
  have n: "normalize (MVector 0 0 (- c)) =
             MVector 0 0 (if 0 < c then - 1 else if c < 0 then 1 else 0)"
    by (simp add: normalize_def l)
  show ?thesis
    by (simp add: screenToWorld_def screenToWorld_point3D_on_z d n Let_def)
      (simp add: vector_plus_def vector_scale_def MVector_of_MPoint_def MPoint_of_MVector_def
        MPoint3_def)
qed

text \<open>
  The round trip of a target on the axis, at depth \<open>c - t\<close>. With the world's origin in
  front of the camera (\<open>0 < c\<close>) it returns the target. With the origin behind the
  camera (\<open>c < 0\<close>) it returns the target's mirror image in the camera, and with the
  camera at the origin it returns the camera point.
\<close>

lemma round_trip_on_z:
  assumes "t \<le> c - 0.01"
  shows "worldToScreen (camera_on_z c) (MPoint3 0 0 c) (MPoint3 0 0 t) (view_on_z c)
           = Inr (Some 320, Some 240) \<and>
         vector_length (point_minus (MPoint3 0 0 t) (MPoint3 0 0 c)) = c - t \<and>
         screenToWorld (320, 240) (MPoint3 0 0 c) (c - t) (view_on_z c) =
           Inr (MPoint3 0 0 (if 0 < c then t else if c < 0 then 2 * c - t else 0))"
proof -
  have "vector_length (point_minus (MPoint3 0 0 t) (MPoint3 0 0 c)) = \<bar>t - c\<bar>"
    by (simp add: vector_defs)
  then have "vector_length (point_minus (MPoint3 0 0 t) (MPoint3 0 0 c)) = c - t"
    using assms by simp
  then show ?thesis
    using worldToScreen_on_z [OF assms] by (simp add: screenToWorld_on_z)
qed

text \<open>With the camera at the world's origin every pixel unprojects to the camera point.\<close>

lemma screenToWorld_camera_at_origin:
  "screenToWorld point2D (MPoint3 0 0 0) s (view_on_z 0) = Inr (MPoint3 0 0 0)"
  apply (simp add: screenToWorld_def screenToWorld_point3D_def view_projection_on_z py_div_def
      Let_def)
  apply (simp add: view_on_z_def inverse_on_z [of 0, simplified])
  apply (simp add: point_times_matrix_def vector_defs)
  done

text \<open>Two pixels off the centre, for the camera at height 2.\<close>

lemma sqrt_25_4: "sqrt (25 / 4) = 5 / 2"
  by (rule real_sqrt_unique) (simp_all add: power2_eq_square)

lemma screenToWorld_example_x:
  "screenToWorld (560, 240) (MPoint3 0 0 2) 1 (view_on_z 2) = Inr (MPoint3 (3 / 5) 0 (6 / 5))"
  apply (simp add: screenToWorld_def screenToWorld_point3D_def view_projection_on_z py_div_def
      Let_def)
  apply (simp add: view_on_z_def inverse_on_z [of 2, simplified])
  apply (simp add: point_times_matrix_def vector_defs sqrt_25_4)
  done

lemma screenToWorld_example_y:
  "screenToWorld (320, 420) (MPoint3 0 0 2) 1 (view_on_z 2) = Inr (MPoint3 0 (3 / 5) (6 / 5))"
  apply (simp add: screenToWorld_def screenToWorld_point3D_def view_projection_on_z py_div_def
      Let_def)
  apply (simp add: view_on_z_def inverse_on_z [of 2, simplified])
  apply (simp add: point_times_matrix_def vector_defs sqrt_25_4)
  done

text \<open>
  Claim C1. Round trip: for a world point in front of the camera (depth at least 0.01),
  \<open>worldToScreen\<close> and then \<open>screenToWorld\<close> at the point's distance from the camera
  should return the point. The code does not: with the camera at height \<open>- 1\<close> on the
  z axis, looking away from the world's origin, the target at height \<open>- 3\<close> has depth 2
  and distance 2 and projects to the centre of the port, and \<open>screenToWorld\<close> returns
  the point at height 1, on the other side of the camera.
\<close>

theorem round_trip_mirrored:
  "dot (point_minus (MPoint3 0 0 (- 3)) (MPoint3 0 0 (- 1)))
     (viewDirection (camera_on_z (- 1))) = 2 \<and>
   worldToScreen (camera_on_z (- 1)) (MPoint3 0 0 (- 1)) (MPoint3 0 0 (- 3)) (view_on_z (- 1))
     = Inr (Some 320, Some 240) \<and>
   vector_length (point_minus (MPoint3 0 0 (- 3)) (MPoint3 0 0 (- 1))) = 2 \<and>
   screenToWorld (320, 240) (MPoint3 0 0 (- 1)) 2 (view_on_z (- 1)) = Inr (MPoint3 0 0 1)"
proof -
  have d: "dot (point_minus (MPoint3 0 0 (- 3)) (MPoint3 0 0 (- 1)))
             (viewDirection (camera_on_z (- 1))) = 2"
    by (simp add: vector_defs camera_on_z_def)
  have "(- 3 :: real) \<le> - 1 - 0.01" by simp
  from round_trip_on_z [OF this] d show ?thesis by simp
qed

section \<open>nudge\<close>

text \<open>What a successful run of the first part of \<^verbatim>\<open>nudge\<close> has computed.\<close>

lemma nudge_offsets_Inr:
  assumes "nudge_offsets sc transformName pixelAmount view = Inr l"
  obtains tx ty tz x y where
    "cmds_xform_translation sc transformName = Inr (tx, ty, tz)"
    "worldToScreen (getCamera view) (eyePoint (getCamera view)) (MPoint3 tx ty tz) view
       = Inr (Some x, Some y)"
    "screenToWorld (x + fst pixelAmount, y) (eyePoint (getCamera view))
       (vector_length (point_minus (MPoint3 tx ty tz) (eyePoint (getCamera view)))) view
       = Inr (loc_xyz_x l)"
    "screenToWorld (x, y + snd pixelAmount) (eyePoint (getCamera view))
       (vector_length (point_minus (MPoint3 tx ty tz) (eyePoint (getCamera view)))) view
       = Inr (loc_xyz_y l)"
    "loc_cameraPoint l = eyePoint (getCamera view)"
    "loc_transformPoint l = MPoint3 tx ty tz"
    "loc_pointDist l
       = vector_length (point_minus (MPoint3 tx ty tz) (eyePoint (getCamera view)))"
    "loc_startDirVec l
       = normalize (point_minus (MPoint3 tx ty tz) (eyePoint (getCamera view)))"
    "loc_offsetX l = vector_plus (point_minus (loc_xyz_x l) (loc_transformPoint l))
                       (MVector_of_MPoint (loc_transformPoint l))"
    "loc_offsetY l = vector_plus (point_minus (loc_xyz_y l) (loc_transformPoint l))
                       (MVector_of_MPoint (loc_transformPoint l))"
  using assms
  by (auto simp add: nudge_offsets_def Let_def py_add_def
      split: sum.splits prod.splits option.splits)

lemma nudge_Inr:
  "nudge_offsets sc transformName pixelAmount view = Inr l \<Longrightarrow>
   nudge sc transformName pixelAmount moveObject rotateView view =
     (nudge_commands l transformName moveObject rotateView (getCamera view), Inr ())"
  by (simp add: nudge_def)

text \<open>
  A target whose depth is less than 0.01: \<open>worldToScreen\<close> returns \<^verbatim>\<open>(None, None)\<close>,
  \<^verbatim>\<open>x + pixelAmount[0]\<close> raises \<^verbatim>\<open>TypeError\<close>, and no command has been issued.
\<close>

lemma nudge_projection_failure:
  assumes "cmds_xform_translation sc transformName = Inr (tx, ty, tz)"
    and "dot (point_minus (MPoint3 tx ty tz) (eyePoint (getCamera view)))
             (viewDirection (getCamera view)) < 0.01"
  shows "nudge sc transformName pixelAmount moveObject rotateView view = ([], Inl TypeError)"
proof -
  have "worldToScreen (getCamera view) (eyePoint (getCamera view)) (MPoint3 tx ty tz) view
        = Inr (None, None)"
    using assms(2) by (simp add: worldToScreen_def Let_def)
  then show ?thesis
    using assms(1) by (simp add: nudge_def nudge_offsets_def py_add_def Let_def)
qed

lemma nudge_behind_on_z:
  "nudge (scene_on_z 2 3) ''pSphere1'' pixelAmount moveObject rotateView (view_on_z 2)
   = ([], Inl TypeError)"
proof -
  have x: "cmds_xform_translation (scene_on_z 2 3) ''pSphere1'' = Inr (0, 0, 3)"
    by (simp add: cmds_xform_translation_def scene_on_z_def)
  have "dot (point_minus (MPoint3 0 0 3) (eyePoint (getCamera (view_on_z 2))))
          (viewDirection (getCamera (view_on_z 2))) < 0.01"
    by (simp add: getCamera_def vector_defs scene_defs)
  from nudge_projection_failure [OF x this] show ?thesis .
qed

lemma mutated_nudge_commands:
  "mutated (nudge_commands l transformName moveObject rotateView fnCamera) =
     {if moveObject then transformName else fullPathName fnCamera}"
  by (simp add: nudge_commands_def Let_def)

subsection \<open>Runs of nudge on the z axis\<close>

lemma nudge_offsets_example:
  "nudge_offsets (scene_on_z 2 1) ''pSphere1'' (240, 180) (view_on_z 2) = Inr example_locals"
proof -
  have x: "cmds_xform_translation (scene_on_z 2 1) ''pSphere1'' = Inr (0, 0, 1)"
    by (simp add: cmds_xform_translation_def scene_on_z_def)
  have c: "getCamera (view_on_z 2) = camera_on_z 2" "eyePoint (camera_on_z 2) = MPoint3 0 0 2"
    by (simp_all add: getCamera_def view_on_z_def camera_on_z_def)
  have l: "vector_length (point_minus (MPoint3 0 0 1) (MPoint3 0 0 2)) = 1"
    "normalize (point_minus (MPoint3 0 0 1) (MPoint3 0 0 2)) = MVector 0 0 (- 1)"
    by (simp_all add: vector_defs)
  have o: "vector_plus (point_minus (MPoint3 (3 / 5) 0 (6 / 5)) (MPoint3 0 0 1))
             (MVector_of_MPoint (MPoint3 0 0 1)) = MVector (3 / 5) 0 (6 / 5)"
    "vector_plus (point_minus (MPoint3 0 (3 / 5) (6 / 5)) (MPoint3 0 0 1))
             (MVector_of_MPoint (MPoint3 0 0 1)) = MVector 0 (3 / 5) (6 / 5)"
    by (simp_all add: vector_defs)
  have w: "worldToScreen (camera_on_z 2) (MPoint3 0 0 2) (MPoint3 0 0 1) (view_on_z 2)
           = Inr (Some 320, Some 240)"
    by (rule worldToScreen_on_z) simp
  show ?thesis
    by (simp add: nudge_offsets_def x c l o w py_add_def
        screenToWorld_example_x screenToWorld_example_y Let_def example_locals_def)
qed


text \<open>
  The camera at height 3, the target at height 1, in the middle of the frustum, and the
  pixel amount \<open>(0, 0)\<close>: both unprojected points are the target, and both offsets are
  the target's position.
\<close>

lemma nudge_offsets_zero_pixels:
  "nudge_offsets (scene_on_z 3 1) ''pSphere1'' (0, 0) (view_on_z 3) =
     Inr \<lparr> loc_cameraPoint = MPoint3 0 0 3,
           loc_transformPoint = MPoint3 0 0 1,
           loc_pointDist = 2,
           loc_startDirVec = MVector 0 0 (- 1),
           loc_xyz_x = MPoint3 0 0 1,
           loc_xyz_y = MPoint3 0 0 1,
           loc_offsetX = MVector 0 0 1,
           loc_offsetY = MVector 0 0 1 \<rparr>"
proof -
  have x: "cmds_xform_translation (scene_on_z 3 1) ''pSphere1'' = Inr (0, 0, 1)"
    by (simp add: cmds_xform_translation_def scene_on_z_def)
  have c: "getCamera (view_on_z 3) = camera_on_z 3" "eyePoint (camera_on_z 3) = MPoint3 0 0 3"
    by (simp_all add: getCamera_def view_on_z_def camera_on_z_def)
  have l: "vector_length (point_minus (MPoint3 0 0 1) (MPoint3 0 0 3)) = 2"
    "normalize (point_minus (MPoint3 0 0 1) (MPoint3 0 0 3)) = MVector 0 0 (- 1)"
    by (simp_all add: vector_defs)
  have o: "vector_plus (point_minus (MPoint3 0 0 1) (MPoint3 0 0 1))
             (MVector_of_MPoint (MPoint3 0 0 1)) = MVector 0 0 1"
    by (simp add: vector_defs)
  have w: "worldToScreen (camera_on_z 3) (MPoint3 0 0 3) (MPoint3 0 0 1) (view_on_z 3)
           = Inr (Some 320, Some 240)"
    by (rule worldToScreen_on_z) simp
  have s: "screenToWorld (320, 240) (MPoint3 0 0 3) 2 (view_on_z 3) = Inr (MPoint3 0 0 1)"
    by (simp add: screenToWorld_on_z)
  show ?thesis
    by (simp add: nudge_offsets_def x c l o s w py_add_def Let_def)
qed

text \<open>The camera at the world's origin and the target at height \<open>- 2\<close>.\<close>

lemma nudge_offsets_camera_at_origin:
  "nudge_offsets (scene_on_z 0 (- 2)) ''pSphere1'' (240, 180) (view_on_z 0) =
     Inr \<lparr> loc_cameraPoint = MPoint3 0 0 0,
           loc_transformPoint = MPoint3 0 0 (- 2),
           loc_pointDist = 2,
           loc_startDirVec = MVector 0 0 (- 1),
           loc_xyz_x = MPoint3 0 0 0,
           loc_xyz_y = MPoint3 0 0 0,
           loc_offsetX = MVector 0 0 0,
           loc_offsetY = MVector 0 0 0 \<rparr>"
proof -
  have x: "cmds_xform_translation (scene_on_z 0 (- 2)) ''pSphere1'' = Inr (0, 0, - 2)"
    by (simp add: cmds_xform_translation_def scene_on_z_def)
  have c: "getCamera (view_on_z 0) = camera_on_z 0" "eyePoint (camera_on_z 0) = MPoint3 0 0 0"
    by (simp_all add: getCamera_def view_on_z_def camera_on_z_def)
  have l: "vector_length (point_minus (MPoint3 0 0 (- 2)) (MPoint3 0 0 0)) = 2"
    "normalize (point_minus (MPoint3 0 0 (- 2)) (MPoint3 0 0 0)) = MVector 0 0 (- 1)"
    by (simp_all add: vector_defs)
  have o: "vector_plus (point_minus (MPoint3 0 0 0) (MPoint3 0 0 (- 2)))
             (MVector_of_MPoint (MPoint3 0 0 (- 2))) = MVector 0 0 0"
    by (simp add: vector_defs)
  have w: "worldToScreen (camera_on_z 0) (MPoint3 0 0 0) (MPoint3 0 0 (- 2)) (view_on_z 0)
           = Inr (Some 320, Some 240)"
    by (rule worldToScreen_on_z) simp
  show ?thesis
    by (simp add: nudge_offsets_def x c l o w py_add_def
        screenToWorld_camera_at_origin Let_def)
qed

subsection \<open>The distance of the unprojected points\<close>

text \<open>
  Claim C2, amended. For a camera point with \<open>w = 1\<close> and a \<open>setDistance\<close> that is
  not negative: when \<open>screenToWorld\<close> returns a point other than the camera point, that
  point is exactly \<open>setDistance\<close> from the camera point, in the direction from the
  camera point to the unprojected pixel. In particular the points \<open>xyz_x\<close> and
  \<open>xyz_y\<close> that \<open>nudge\<close> computes, when they are not the camera point, are exactly
  \<open>pointDist\<close> from it.
\<close>

theorem screenToWorld_distance:
  "(screenToWorld point2D cameraPoint setDistance view = Inr p \<and> pw cameraPoint = 1 \<and>
    0 \<le> setDistance \<and> p \<noteq> cameraPoint \<longrightarrow>
      vector_length (point_minus p cameraPoint) = setDistance \<and>
      (\<exists>q. screenToWorld_point3D point2D view = Inr q \<and>
           point_minus p cameraPoint =
             vector_scale (point_minus q cameraPoint)
               (setDistance / vector_length (point_minus q cameraPoint)))) \<and>
   (nudge_offsets sc transformName pixelAmount nview = Inr l \<and>
    pw (eyePoint (getCamera nview)) = 1 \<longrightarrow>
      (loc_xyz_x l \<noteq> loc_cameraPoint l \<longrightarrow>
         vector_length (point_minus (loc_xyz_x l) (loc_cameraPoint l)) = loc_pointDist l) \<and>
      (loc_xyz_y l \<noteq> loc_cameraPoint l \<longrightarrow>
         vector_length (point_minus (loc_xyz_y l) (loc_cameraPoint l)) = loc_pointDist l))"
proof (intro conjI impI)
  assume "screenToWorld point2D cameraPoint setDistance view = Inr p \<and> pw cameraPoint = 1 \<and>
    0 \<le> setDistance \<and> p \<noteq> cameraPoint"
  then have a: "screenToWorld point2D cameraPoint setDistance view = Inr p"
    "pw cameraPoint = 1" "0 \<le> setDistance" "p \<noteq> cameraPoint" by simp_all
  from screenToWorld_distance_lemma [OF a]
  show "vector_length (point_minus p cameraPoint) = setDistance"
    and "\<exists>q. screenToWorld_point3D point2D view = Inr q \<and>
           point_minus p cameraPoint =
             vector_scale (point_minus q cameraPoint)
               (setDistance / vector_length (point_minus q cameraPoint))"
    by simp_all
next
  assume h: "nudge_offsets sc transformName pixelAmount nview = Inr l \<and>
    pw (eyePoint (getCamera nview)) = 1"
  then obtain tx ty tz x y where
    sx: "screenToWorld (x + fst pixelAmount, y) (eyePoint (getCamera nview))
       (vector_length (point_minus (MPoint3 tx ty tz) (eyePoint (getCamera nview)))) nview
       = Inr (loc_xyz_x l)"
    and sy: "screenToWorld (x, y + snd pixelAmount) (eyePoint (getCamera nview))
       (vector_length (point_minus (MPoint3 tx ty tz) (eyePoint (getCamera nview)))) nview
       = Inr (loc_xyz_y l)"
    and c: "loc_cameraPoint l = eyePoint (getCamera nview)"
    and d: "loc_pointDist l
            = vector_length (point_minus (MPoint3 tx ty tz) (eyePoint (getCamera nview)))"
    by (auto elim: nudge_offsets_Inr)
  from h have w: "pw (eyePoint (getCamera nview)) = 1" by simp
  {
    assume "loc_xyz_x l \<noteq> loc_cameraPoint l"
    then have "loc_xyz_x l \<noteq> eyePoint (getCamera nview)" by (simp add: c)
    from screenToWorld_distance_lemma [OF sx w vector_length_nonneg this]
    show "vector_length (point_minus (loc_xyz_x l) (loc_cameraPoint l)) = loc_pointDist l"
      by (simp add: c d)
  }
  {
    assume "loc_xyz_y l \<noteq> loc_cameraPoint l"
    then have "loc_xyz_y l \<noteq> eyePoint (getCamera nview)" by (simp add: c)
    from screenToWorld_distance_lemma [OF sy w vector_length_nonneg this]
    show "vector_length (point_minus (loc_xyz_y l) (loc_cameraPoint l)) = loc_pointDist l"
      by (simp add: c d)
  }
qed

text \<open>
  The theorem at the pixel \<open>(560, 240)\<close> of the camera at height 2 with distance 1, and
  at the run of \<open>nudge\<close> for the target at height 1 and the pixel amount \<open>(240, 180)\<close>.
\<close>

theorem screenToWorld_distance_witness:
  "screenToWorld (560, 240) (MPoint3 0 0 2) 1 (view_on_z 2) = Inr (MPoint3 (3 / 5) 0 (6 / 5)) \<and>
   vector_length (point_minus (MPoint3 (3 / 5) 0 (6 / 5)) (MPoint3 0 0 2)) = 1 \<and>
   nudge_offsets (scene_on_z 2 1) ''pSphere1'' (240, 180) (view_on_z 2) = Inr example_locals \<and>
   vector_length (point_minus (loc_xyz_x example_locals) (loc_cameraPoint example_locals))
     = loc_pointDist example_locals \<and>
   vector_length (point_minus (loc_xyz_y example_locals) (loc_cameraPoint example_locals))
     = loc_pointDist example_locals"
proof -
  have w: "pw (MPoint3 0 0 2) = 1" by (simp add: MPoint3_def)
  have ne: "MPoint3 (3 / 5) 0 (6 / 5) \<noteq> MPoint3 0 0 2" by (simp add: MPoint3_def)
  have e: "pw (eyePoint (getCamera (view_on_z 2))) = 1"
    by (simp add: getCamera_def view_on_z_def camera_on_z_def MPoint3_def)
  have nx: "loc_xyz_x example_locals \<noteq> loc_cameraPoint example_locals"
    and ny: "loc_xyz_y example_locals \<noteq> loc_cameraPoint example_locals"
    by (simp_all add: example_locals_def MPoint3_def)
  show ?thesis
    using screenToWorld_example_x w ne nudge_offsets_example e nx ny
      screenToWorld_distance [of "(560, 240)" "MPoint3 0 0 2" 1 "view_on_z 2"
        "MPoint3 (3 / 5) 0 (6 / 5)" "scene_on_z 2 1" "''pSphere1''" "(240, 180)" "view_on_z 2"
        example_locals]
    by simp
qed

text \<open>
  Without the two conditions the statement fails. With the camera at the world's
  origin and the target at distance 2, \<open>nudge\<close> computes the camera point for both
  \<open>xyz_x\<close> and \<open>xyz_y\<close>, at distance 0. With the distance \<open>- 1\<close> the returned point
  is at distance 1.
\<close>

theorem screenToWorld_distance_counterexample:
  "nudge_offsets (scene_on_z 0 (- 2)) ''pSphere1'' (240, 180) (view_on_z 0) =
     Inr \<lparr> loc_cameraPoint = MPoint3 0 0 0,
           loc_transformPoint = MPoint3 0 0 (- 2),
           loc_pointDist = 2,
           loc_startDirVec = MVector 0 0 (- 1),
           loc_xyz_x = MPoint3 0 0 0,
           loc_xyz_y = MPoint3 0 0 0,
           loc_offsetX = MVector 0 0 0,
           loc_offsetY = MVector 0 0 0 \<rparr> \<and>
   screenToWorld (560, 240) (MPoint3 0 0 0) 2 (view_on_z 0) = Inr (MPoint3 0 0 0) \<and>
   vector_length (point_minus (MPoint3 0 0 0) (MPoint3 0 0 0)) = 0 \<and>
   screenToWorld (320, 240) (MPoint3 0 0 2) (- 1) (view_on_z 2) = Inr (MPoint3 0 0 3) \<and>
   vector_length (point_minus (MPoint3 0 0 3) (MPoint3 0 0 2)) = 1"
proof -
  have z: "vector_length (point_minus (MPoint3 0 0 0) (MPoint3 0 0 0)) = 0"
    "vector_length (point_minus (MPoint3 0 0 3) (MPoint3 0 0 2)) = 1"
    by (simp_all add: vector_defs)
  have m: "screenToWorld (320, 240) (MPoint3 0 0 2) (- 1) (view_on_z 2) = Inr (MPoint3 0 0 3)"
    by (simp add: screenToWorld_on_z)
  show ?thesis
    using nudge_offsets_camera_at_origin z m screenToWorld_camera_at_origin [of "(560, 240)" 2]
    by simp
qed

subsection \<open>The offsets\<close>

text \<open>
  Claim C8, amended. In exact arithmetic, in every run of \<open>nudge\<close> that reaches the
  offsets, \<open>offsetX\<close> is \<open>(xyz_x - transformPoint) + transformPoint\<close> and equals
  \<open>xyz_x\<close> coordinate by coordinate, and \<open>offsetY\<close> is
  \<open>(xyz_y - transformPoint) + transformPoint\<close> and equals \<open>xyz_y\<close>: subtracting and
  adding the target point cancel.
\<close>

theorem nudge_offsets_cancel:
  assumes "nudge_offsets sc transformName pixelAmount view = Inr l"
  shows "loc_offsetX l = vector_plus (point_minus (loc_xyz_x l) (loc_transformPoint l))
                           (MVector_of_MPoint (loc_transformPoint l)) \<and>
         loc_offsetX l = MVector_of_MPoint (loc_xyz_x l) \<and>
         loc_offsetY l = vector_plus (point_minus (loc_xyz_y l) (loc_transformPoint l))
                           (MVector_of_MPoint (loc_transformPoint l)) \<and>
         loc_offsetY l = MVector_of_MPoint (loc_xyz_y l)"
proof -
  from assms obtain tx ty tz x y where
    sx: "screenToWorld (x + fst pixelAmount, y) (eyePoint (getCamera view))
       (vector_length (point_minus (MPoint3 tx ty tz) (eyePoint (getCamera view)))) view
       = Inr (loc_xyz_x l)"
    and sy: "screenToWorld (x, y + snd pixelAmount) (eyePoint (getCamera view))
       (vector_length (point_minus (MPoint3 tx ty tz) (eyePoint (getCamera view)))) view
       = Inr (loc_xyz_y l)"
    and t: "loc_transformPoint l = MPoint3 tx ty tz"
    and ox: "loc_offsetX l = vector_plus (point_minus (loc_xyz_x l) (loc_transformPoint l))
                       (MVector_of_MPoint (loc_transformPoint l))"
    and oy: "loc_offsetY l = vector_plus (point_minus (loc_xyz_y l) (loc_transformPoint l))
                       (MVector_of_MPoint (loc_transformPoint l))"
    by (rule nudge_offsets_Inr)
  have wt: "pw (loc_transformPoint l) = 1" by (simp add: t MPoint3_def)
  have wx: "pw (loc_xyz_x l) = 1" using sx by (rule screenToWorld_w)
  have wy: "pw (loc_xyz_y l) = 1" using sy by (rule screenToWorld_w)
  show ?thesis
    using ox oy offset_cancels [OF wx wt] offset_cancels [OF wy wt] by simp
qed

text \<open>The theorem at the run for the pixel amount \<open>(240, 180)\<close>.\<close>

theorem nudge_offsets_cancel_witness:
  "nudge_offsets (scene_on_z 2 1) ''pSphere1'' (240, 180) (view_on_z 2) = Inr example_locals \<and>
   loc_offsetX example_locals = MVector_of_MPoint (loc_xyz_x example_locals) \<and>
   loc_offsetY example_locals = MVector_of_MPoint (loc_xyz_y example_locals)"
  using nudge_offsets_example nudge_offsets_cancel [OF nudge_offsets_example] by blast

text \<open>
  In the double arithmetic of the code the two operations do not cancel. A double is
  rounded at the binade it lies in.
\<close>

lemma double_round_binade:
  assumes "2 powr (of_int e) \<le> \<bar>x\<bar>" and "\<bar>x\<bar> < 2 powr (of_int (e + 1))"
  shows "double_round x
         = 2 powr (of_int e - 52) * of_int (round_half_even (x / 2 powr (of_int e - 52)))"
proof -
  have pos: "0 < \<bar>x\<bar>"
    using assms(1) by (smt (verit) powr_gt_zero)
  then have "\<lfloor>log 2 \<bar>x\<bar>\<rfloor> = e"
    using assms by (simp add: floor_log_eq_powr_iff)
  moreover have "x \<noteq> 0" using pos by simp
  ultimately show ?thesis by (simp add: double_round_def Let_def)
qed

lemma double_round_one: "double_round 1 = 1"
  by (subst double_round_binade [of 0])
    (simp_all add: round_half_even_def Let_def powr_neg_numeral)

lemma double_round_one_plus: "double_round (1 + 1 / 2 ^ 52) = 1 + 1 / 2 ^ 52"
  by (subst double_round_binade [of 0])
    (simp_all add: round_half_even_def Let_def powr_neg_numeral)

lemma double_round_eight: "double_round 8 = 8"
  by (subst double_round_binade [of 3])
    (simp_all add: round_half_even_def Let_def powr_neg_numeral)

lemma double_round_difference: "double_round (1 + 1 / 2 ^ 52 - 8) = - 7"
  by (subst double_round_binade [of 2])
    (simp_all add: round_half_even_def Let_def powr_neg_numeral)

text \<open>
  With rounding the statement fails: \<open>1 + 1 / 2 ^ 52\<close>, the double next above 1, and 8
  are doubles; their difference rounds to \<open>- 7\<close>, and adding 8 back gives 1, not the
  coordinate of \<open>xyz_x\<close>.
\<close>

theorem double_offset_counterexample:
  "double_round (1 + 1 / 2 ^ 52) = 1 + 1 / 2 ^ 52 \<and> double_round 8 = 8 \<and>
   double_offset (MPoint3 (1 + 1 / 2 ^ 52) 0 0) (MPoint3 8 0 0) = MVector 1 0 0 \<and>
   MVector_of_MPoint (MPoint3 (1 + 1 / 2 ^ 52) 0 0) \<noteq> MVector 1 0 0"
proof -
  have z: "double_round 0 = 0" by (simp add: double_round_def)
  have s: "(- 7 :: real) + 8 = 1" by simp
  have "double_offset (MPoint3 (1 + 1 / 2 ^ 52) 0 0) (MPoint3 8 0 0) = MVector 1 0 0"
    unfolding double_offset_def MPoint3_def MPoint.sel double_round_difference s
    by (simp add: z double_round_one)
  then show ?thesis
    using double_round_one_plus double_round_eight
    by (simp add: MVector_of_MPoint_def MPoint3_def)
qed

subsection \<open>The rotation\<close>

text \<open>
  Claim C9, amended. In every run of \<open>nudge\<close> in camera mode (\<open>moveObject\<close> false) with
  \<open>rotateView\<close> true that reaches the commands, the camera is rotated, relatively and
  in its object space, by \<open>(angleY, angleX, 0)\<close>: \<open>angleX\<close> is the angle in degrees
  between the direction from the camera to the target and the direction from the
  camera to \<open>xyz_x\<close>, and is not negative; \<open>angleY\<close> is the negated angle between the
  direction to the target and the direction to \<open>xyz_y\<close>, and is not positive.
\<close>

theorem nudge_rotation:
  assumes "nudge_offsets sc transformName pixelAmount view = Inr l"
    and "angleX = degrees (angle
                    (normalize (point_minus (loc_transformPoint l) (loc_cameraPoint l)))
                    (normalize (point_minus (loc_xyz_x l) (loc_cameraPoint l))))"
    and "angleY = - degrees (angle
                    (normalize (point_minus (loc_transformPoint l) (loc_cameraPoint l)))
                    (normalize (point_minus (loc_xyz_y l) (loc_cameraPoint l))))"
  shows "nudge sc transformName pixelAmount False True view =
           ([UndoInfo_openChunk,
             Move (vx (loc_offsetX l)) (vy (loc_offsetX l)) (vz (loc_offsetX l))
               (fullPathName (getCamera view)),
             Move (vx (loc_offsetY l)) (vy (loc_offsetY l)) (vz (loc_offsetY l))
               (fullPathName (getCamera view)),
             Rotate angleY angleX 0 (fullPathName (getCamera view)),
             UndoInfo_closeChunk], Inr ()) \<and>
         0 \<le> angleX \<and> angleY \<le> 0"
proof -
  from assms(1) obtain tx ty tz where
    "loc_cameraPoint l = eyePoint (getCamera view)"
    "loc_transformPoint l = MPoint3 tx ty tz"
    "loc_startDirVec l = normalize (point_minus (MPoint3 tx ty tz) (eyePoint (getCamera view)))"
    by (rule nudge_offsets_Inr)
  then have s: "loc_startDirVec l
                = normalize (point_minus (loc_transformPoint l) (loc_cameraPoint l))"
    by simp
  have "0 \<le> angleX"
    unfolding assms(2) by (rule degrees_nonneg) (simp add: angle_range)
  moreover have "angleY \<le> 0"
    unfolding assms(3) using degrees_nonneg [OF conjunct1 [OF angle_range]] by simp
  ultimately show ?thesis
    using assms by (simp add: nudge_def nudge_commands_def Let_def s)
qed

text \<open>
  The theorem at the run for the pixel amount \<open>(240, 180)\<close>: both directions make the
  angle \<open>arccos (4 / 5)\<close> with the direction to the target.
\<close>

theorem nudge_rotation_witness:
  "nudge_offsets (scene_on_z 2 1) ''pSphere1'' (240, 180) (view_on_z 2) = Inr example_locals \<and>
   nudge (scene_on_z 2 1) ''pSphere1'' (240, 180) False True (view_on_z 2) =
     ([UndoInfo_openChunk,
       Move (3 / 5) 0 (6 / 5) ''|persp|perspShape'',
       Move 0 (3 / 5) (6 / 5) ''|persp|perspShape'',
       Rotate (- degrees (arccos (4 / 5))) (degrees (arccos (4 / 5))) 0 ''|persp|perspShape'',
       UndoInfo_closeChunk], Inr ())"
proof -
  have n: "normalize (point_minus (loc_transformPoint example_locals)
                        (loc_cameraPoint example_locals)) = MVector 0 0 (- 1)"
    "normalize (point_minus (loc_xyz_x example_locals) (loc_cameraPoint example_locals))
       = MVector (3 / 5) 0 (- (4 / 5))"
    "normalize (point_minus (loc_xyz_y example_locals) (loc_cameraPoint example_locals))
       = MVector 0 (3 / 5) (- (4 / 5))"
    by (simp_all add: example_locals_def vector_defs sqrt_25_4)
  have a: "angle (MVector 0 0 (- 1)) (MVector (3 / 5) 0 (- (4 / 5))) = arccos (4 / 5)"
    "angle (MVector 0 0 (- 1)) (MVector 0 (3 / 5) (- (4 / 5))) = arccos (4 / 5)"
    by (simp_all add: angle_def vector_defs)
  have f: "fullPathName (getCamera (view_on_z 2)) = ''|persp|perspShape''"
    by (rule fullPathName_on_z)
  have o: "loc_offsetX example_locals = MVector (3 / 5) 0 (6 / 5)"
    "loc_offsetY example_locals = MVector 0 (3 / 5) (6 / 5)"
    by (simp_all add: example_locals_def)
  show ?thesis
    using nudge_offsets_example nudge_rotation [OF nudge_offsets_example refl refl]
    unfolding n a f o by simp
qed

text \<open>
  That every call in camera mode with \<open>rotateView\<close> true rotates the camera fails for
  the target behind the camera: the call raises and no rotate command is issued.
\<close>

theorem nudge_rotation_counterexample:
  "snd (nudge (scene_on_z 2 3) ''pSphere1'' (240, 180) False True (view_on_z 2))
     = Inl TypeError \<and>
   rotations (fst (nudge (scene_on_z 2 3) ''pSphere1'' (240, 180) False True (view_on_z 2)))
     = []"
  by (simp add: nudge_behind_on_z)

subsection \<open>The pixel amount zero\<close>

text \<open>
  Claim C3. Zero-offset idempotence: for a valid target in front of the camera,
  \<open>nudge\<close> with the pixel amount \<open>(0, 0)\<close> should move the nudged node by nothing. The
  code does not: with the camera at height 3 and the target at height 1, both offsets
  are the target's position \<open>(0, 0, 1)\<close>, each is applied as a relative move, and the
  node, the object or the camera, is moved by \<open>(0, 0, 2)\<close>.
\<close>

theorem nudge_zero_offset_moves:
  "nudge (scene_on_z 3 1) ''pSphere1'' (0, 0) True False (view_on_z 3) =
     ([UndoInfo_openChunk, Move 0 0 1 ''pSphere1'', Move 0 0 1 ''pSphere1'',
       UndoInfo_closeChunk], Inr ()) \<and>
   net_translation (fst (nudge (scene_on_z 3 1) ''pSphere1'' (0, 0) True False (view_on_z 3)))
     ''pSphere1'' = MVector 0 0 2 \<and>
   nudge (scene_on_z 3 1) ''pSphere1'' (0, 0) False False (view_on_z 3) =
     ([UndoInfo_openChunk, Move 0 0 1 ''|persp|perspShape'', Move 0 0 1 ''|persp|perspShape'',
       UndoInfo_closeChunk], Inr ()) \<and>
   net_translation (fst (nudge (scene_on_z 3 1) ''pSphere1'' (0, 0) False False (view_on_z 3)))
     ''|persp|perspShape'' = MVector 0 0 2"
  by (simp add: nudge_Inr [OF nudge_offsets_zero_pixels] nudge_commands_def fullPathName_on_z
      vector_plus_def)

subsection \<open>A target behind the camera\<close>

text \<open>
  Claim C6. Projection-failure short-circuit: for a target behind the camera, \<open>nudge\<close>
  should change no transform and return a no-op result rather than crash. The code
  changes no transform, but it does not return: with the camera at height 2 and the
  target at height 3, of depth \<open>- 1\<close>, it raises \<^verbatim>\<open>TypeError\<close>.
\<close>

theorem nudge_behind_camera_raises:
  "dot (point_minus (MPoint3 0 0 3) (eyePoint (getCamera (view_on_z 2))))
       (viewDirection (getCamera (view_on_z 2))) = - 1 \<and>
   nudge (scene_on_z 2 3) ''pSphere1'' (10, 10) False True (view_on_z 2) = ([], Inl TypeError)"
proof -
  have "dot (point_minus (MPoint3 0 0 3) (eyePoint (getCamera (view_on_z 2))))
       (viewDirection (getCamera (view_on_z 2))) = - 1"
    by (simp add: getCamera_def vector_defs scene_defs)
  then show ?thesis by (simp add: nudge_behind_on_z)
qed

subsection \<open>The node that is changed\<close>

text \<open>
  Claim C7, amended. In every call of \<open>nudge\<close> the commands issued change no node but
  one: the target object when \<open>moveObject\<close> is true, the camera otherwise; never both.
  In every call that completes, that node is changed.
\<close>

theorem nudge_one_mutation_path:
  "mutated (fst (nudge sc transformName pixelAmount moveObject rotateView view))
     \<subseteq> {if moveObject then transformName else fullPathName (getCamera view)} \<and>
   (snd (nudge sc transformName pixelAmount moveObject rotateView view) = Inr () \<longrightarrow>
      mutated (fst (nudge sc transformName pixelAmount moveObject rotateView view))
        = {if moveObject then transformName else fullPathName (getCamera view)})"
  by (simp add: nudge_def mutated_nudge_commands split: sum.splits)

text \<open>
  The theorem at the run for the pixel amount \<open>(240, 180)\<close>, in object mode and in
  camera mode.
\<close>

theorem nudge_one_mutation_path_witness:
  "snd (nudge (scene_on_z 2 1) ''pSphere1'' (240, 180) True False (view_on_z 2)) = Inr () \<and>
   mutated (fst (nudge (scene_on_z 2 1) ''pSphere1'' (240, 180) True False (view_on_z 2)))
     = {''pSphere1''} \<and>
   snd (nudge (scene_on_z 2 1) ''pSphere1'' (240, 180) False True (view_on_z 2)) = Inr () \<and>
   mutated (fst (nudge (scene_on_z 2 1) ''pSphere1'' (240, 180) False True (view_on_z 2)))
     = {''|persp|perspShape''}"
proof -
  have a: "snd (nudge (scene_on_z 2 1) ''pSphere1'' (240, 180) True False (view_on_z 2))
           = Inr ()"
    and b: "snd (nudge (scene_on_z 2 1) ''pSphere1'' (240, 180) False True (view_on_z 2))
           = Inr ()"
    by (simp_all add: nudge_Inr [OF nudge_offsets_example])
  show ?thesis
    using a b
      nudge_one_mutation_path [of "scene_on_z 2 1" "''pSphere1''" "(240, 180)" True False
        "view_on_z 2"]
      nudge_one_mutation_path [of "scene_on_z 2 1" "''pSphere1''" "(240, 180)" False True
        "view_on_z 2"]
    by (simp add: fullPathName_on_z)
qed

text \<open>
  That every call changes exactly one node fails for the target behind the camera: in
  object mode the object is not changed, in camera mode the camera is not changed.
\<close>

theorem nudge_no_mutation_counterexample:
  "mutated (fst (nudge (scene_on_z 2 3) ''pSphere1'' (240, 180) True False (view_on_z 2))) = {} \<and>
   mutated (fst (nudge (scene_on_z 2 3) ''pSphere1'' (240, 180) False False (view_on_z 2))) = {}"
  by (simp add: nudge_behind_on_z)

section \<open>parseArgs\<close>





end
